theory Spec2Isabelle
  imports Main
begin

section \<open>The Docker manager of container-manager (docker/manager.go)\<close>

text \<open>
  A shallow embedding of \<^verbatim>\<open>src/docker/manager.go\<close>. Go strings are byte
  sequences and become \<^typ>\<open>string\<close>. A Go \<^verbatim>\<open>error\<close> is an opaque value with a
  message; a run-time panic is a value of the same type, so that an index out of range
  is a branch of the model. Pointers are addresses.
\<close>

subsection \<open>Data\<close>

datatype error = Error string | Panic string

type_synonym addr = nat

text \<open>
  \<^verbatim>\<open>type DockerManager struct { client; context; mutex; cancel }\<close>: each field is a
  pointer or an interface value, here the address of the object it refers to.
\<close>

record DockerManager =
  dm_client :: addr
  dm_context :: addr
  dm_mutex :: addr
  dm_cancel :: addr

text \<open>
  Modelled from the spec: the types \<^verbatim>\<open>contman.Mount\<close> and \<^verbatim>\<open>contman.Config\<close> of
  the package \<^verbatim>\<open>github.com/elemir/contman\<close>, whose declarations are not in
  \<^verbatim>\<open>manager.go\<close>. The spec gives the input contract
  \<^verbatim>\<open>{Image: string, Cmd: string, Env: map[string,string], Mounts: []{Source, Target: string, ReadOnly: bool}}\<close>.
  The Go map \<^verbatim>\<open>Env\<close> is an association list: its entries in the order in which the
  \<^verbatim>\<open>range\<close> loop of this call visits them (Go leaves that order unspecified).
\<close>

record contman_Mount =
  Source :: string
  Target :: string
  ReadOnly :: bool

record contman_Config =
  Image :: string
  Cmd :: string
  Env :: "(string \<times> string) list"
  Mounts :: "contman_Mount list"

text \<open>
  The types of the Docker client library that the file uses, with the fields it sets
  or reads; every field left out keeps its zero value in the source.
  \<^verbatim>\<open>mount.Mount\<close>, \<^verbatim>\<open>container.Config\<close>, \<^verbatim>\<open>container.HostConfig\<close>,
  \<^verbatim>\<open>types.ImagePullOptions\<close>, \<^verbatim>\<open>types.ImageSummary\<close>.
\<close>

datatype mount_Type = TypeBind | TypeVolume | TypeTmpfs | TypeNone

record mount_Mount =
  mount_Type :: mount_Type
  mount_Source :: string
  mount_Target :: string
  mount_ReadOnly :: bool

record container_Config =
  cc_Image :: string
  cc_Entrypoint :: "string list"
  cc_Cmd :: "string list"
  cc_WorkingDir :: string
  cc_Env :: "string list"

record container_HostConfig =
  hc_Mounts :: "mount_Mount list"
  hc_NetworkMode :: string

datatype network_NetworkingConfig = NetworkingConfig

record types_ImagePullOptions =
  RegistryAuth :: string

record types_ImageSummary =
  ID :: string
  RepoTags :: "string list"

text \<open>
  \<^verbatim>\<open>types.AuthConfig\<close> of the Docker API, all seven fields (each a string with the
  JSON tag \<^verbatim>\<open>omitempty\<close>), and \<^verbatim>\<open>docker.AuthConfiguration\<close> of go-dockerclient,
  the entry type of the credential store.
\<close>

record types_AuthConfig =
  Username :: string
  Password :: string
  Auth :: string
  Email :: string
  ServerAddress :: string
  IdentityToken :: string
  RegistryToken :: string

record docker_AuthConfiguration =
  ac_Username :: string
  ac_Password :: string
  ac_Email :: string
  ac_ServerAddress :: string
  ac_IdentityToken :: string
  ac_RegistryToken :: string

text \<open>A parsed reference, as far as the file looks into it: its registry domain.\<close>

record reference_Named =
  named_domain :: string
  named_remainder :: string

text \<open>The handle that \<^verbatim>\<open>ContainerCreate\<close> returns: pointer to the manager, container id.\<close>

record DockerContainer =
  dc_manager :: addr
  dc_id :: string

subsection \<open>Effects\<close>

text \<open>
  What an operation can do to the outside is recorded as a trace of events: the calls
  to the daemon client (with the client and the context they are issued on), closing
  a response body, and the operations on the manager's mutex and cancel function.
\<close>

datatype event =
    Call_ImageList addr addr
  | Call_ImagePull addr addr string types_ImagePullOptions
  | Call_ContainerCreate addr addr container_Config container_HostConfig
      "network_NetworkingConfig option" string
  | Call_Close
  | Mutex_Lock addr
  | Mutex_Unlock addr
  | Call_Cancel addr

record world =
  store :: "addr \<Rightarrow> DockerManager"
  trace :: "event list"
  stdout :: string
  logged :: "(string \<times> error) list"

text \<open>
  The environment: what the collaborators outside the file answer. The reference
  parser of docker/distribution, the credential store read by go-dockerclient, the
  daemon behind the client, the working directory of the process, and the string
  quoting of encoding/json (which has no error result).
\<close>

record env =
  reference_ParseNormalizedNamed :: "string \<Rightarrow> error + reference_Named"
  docker_NewAuthConfigurationsFromDockerCfg :: "error + (string \<rightharpoonup> docker_AuthConfiguration)"
  client_ImageList :: "error + types_ImageSummary list"
  client_ImagePull :: "string \<Rightarrow> types_ImagePullOptions \<Rightarrow> error + string"
  client_ContainerCreate :: "container_Config \<Rightarrow> container_HostConfig \<Rightarrow> error + string"
  os_Getwd :: "error + string"
  json_quote :: "string \<Rightarrow> string"

definition reference_Domain :: "reference_Named \<Rightarrow> string" where
  "reference_Domain named = named_domain named"

definition emit :: "event \<Rightarrow> world \<Rightarrow> world" where
  "emit ev w = w\<lparr>trace := trace w @ [ev]\<rparr>"

text \<open>\<^verbatim>\<open>log.WithError(err).Error(msg)\<close>\<close>

definition log_Error :: "string \<Rightarrow> error \<Rightarrow> world \<Rightarrow> world" where
  "log_Error msg err w = w\<lparr>logged := logged w @ [(msg, err)]\<rparr>"

subsection \<open>Library functions\<close>

text \<open>\<^verbatim>\<open>strings.Contains(s, substr)\<close>: \<open>substr\<close> occurs in \<open>s\<close>.\<close>

fun strings_Contains :: "string \<Rightarrow> string \<Rightarrow> bool" where
  "strings_Contains [] substr = (substr = [])"
| "strings_Contains (c # cs) substr =
     (take (length substr) (c # cs) = substr \<or> strings_Contains cs substr)"

text \<open>
  \<^verbatim>\<open>base64.URLEncoding.EncodeToString\<close>: RFC 4648 with the URL-safe alphabet and
  \<^verbatim>\<open>=\<close> padding. As in \<^verbatim>\<open>Encoding.Encode\<close>, three bytes make a 24-bit value that
  is cut into four 6-bit indices; one or two bytes left over are padded.
\<close>

definition encodeURL :: string where
  "encodeURL = ''ABCDEFGHIJKLMNOPQRSTUVWXYZabcdefghijklmnopqrstuvwxyz0123456789-_''"

definition encode6 :: "nat \<Rightarrow> char" where
  "encode6 v = encodeURL ! (v mod 64)"

fun base64_Encode :: "nat list \<Rightarrow> string" where
  "base64_Encode [] = []"
| "base64_Encode [a] =
     (let val = a * 65536
      in [encode6 (val div 262144), encode6 (val div 4096), CHR ''='', CHR ''=''])"
| "base64_Encode [a, b] =
     (let val = a * 65536 + b * 256
      in [encode6 (val div 262144), encode6 (val div 4096), encode6 (val div 64), CHR ''=''])"
| "base64_Encode (a # b # c # src) =
     (let val = a * 65536 + b * 256 + c
      in [encode6 (val div 262144), encode6 (val div 4096), encode6 (val div 64), encode6 val]
         @ base64_Encode src)"

definition base64_URLEncoding_EncodeToString :: "string \<Rightarrow> string" where
  "base64_URLEncoding_EncodeToString src = base64_Encode (map of_char src)"

text \<open>
  \<^verbatim>\<open>json.Marshal\<close> at the type \<^verbatim>\<open>*types.AuthConfig\<close>. A nil pointer encodes as
  \<^verbatim>\<open>null\<close>. The struct encodes as an object of its fields in declaration order; every
  field carries \<^verbatim>\<open>omitempty\<close>, so an empty string is left out. encoding/json reports
  an error for an unsupported type or value, a cycle or a failing custom marshaller;
  a struct of string fields has none of these, so the error result does not occur at
  this type.
\<close>

definition json_field :: "(string \<Rightarrow> string) \<Rightarrow> string \<Rightarrow> string \<Rightarrow> string list" where
  "json_field quote name v = (if v = [] then [] else [''\"'' @ name @ ''\":'' @ quote v])"

fun join_comma :: "string list \<Rightarrow> string" where
  "join_comma [] = []"
| "join_comma [x] = x"
| "join_comma (x # y # ys) = x @ '','' @ join_comma (y # ys)"

definition json_Marshal :: "(string \<Rightarrow> string) \<Rightarrow> types_AuthConfig option \<Rightarrow> error + string" where
  "json_Marshal quote p =
     (case p of
        None \<Rightarrow> Inr ''null''
      | Some a \<Rightarrow>
          Inr (''{'' @ join_comma
                 (json_field quote ''username'' (Username a)
                  @ json_field quote ''password'' (Password a)
                  @ json_field quote ''auth'' (Auth a)
                  @ json_field quote ''email'' (Email a)
                  @ json_field quote ''serveraddress'' (ServerAddress a)
                  @ json_field quote ''identitytoken'' (IdentityToken a)
                  @ json_field quote ''registrytoken'' (RegistryToken a))
               @ ''}''))"

subsection \<open>getAuthConfig\<close>

definition empty_AuthConfig :: types_AuthConfig where
  "empty_AuthConfig =
     \<lparr>Username = [], Password = [], Auth = [], Email = [], ServerAddress = [],
      IdentityToken = [], RegistryToken = []\<rparr>"

text \<open>
  The result is a pointer, \<open>None\<close> being nil. \<^verbatim>\<open>&types.AuthConfig{}\<close> on a read
  error and on a missing entry, otherwise a fresh struct with the entry's user name and
  password.
\<close>

definition getAuthConfig :: "env \<Rightarrow> string \<Rightarrow> types_AuthConfig option" where
  "getAuthConfig e registry =
     (case docker_NewAuthConfigurationsFromDockerCfg e of
        Inl err \<Rightarrow> Some empty_AuthConfig
      | Inr Configs \<Rightarrow>
          (case Configs registry of
             None \<Rightarrow> Some empty_AuthConfig
           | Some authConfiguration \<Rightarrow>
               Some (empty_AuthConfig
                 \<lparr>Username := ac_Username authConfiguration,
                  Password := ac_Password authConfiguration\<rparr>)))"

subsection \<open>PullImage\<close>

definition PullImage :: "env \<Rightarrow> addr \<Rightarrow> string \<Rightarrow> world \<Rightarrow> error option \<times> world" where
  "PullImage e dm img w =
     (case reference_ParseNormalizedNamed e img of
        Inl err \<Rightarrow> (Some err, log_Error ''Cannot parse image name'' err w)
      | Inr named \<Rightarrow>
          (let authConfig = getAuthConfig e (reference_Domain named)
           in case json_Marshal (json_quote e) authConfig of
                Inl err \<Rightarrow> (Some err, log_Error ''Error encoding auth config'' err w)
              | Inr encodedJSON \<Rightarrow>
                  (let authStr = base64_URLEncoding_EncodeToString encodedJSON;
                       opts = \<lparr>RegistryAuth = authStr\<rparr>;
                       w1 = emit (Call_ImagePull (dm_client (store w dm))
                                    (dm_context (store w dm)) img opts) w
                   in case client_ImagePull e img opts of
                        Inl err \<Rightarrow> (Some err, log_Error ''Error pulling image'' err w1)
                      | Inr out \<Rightarrow>
                          (None, emit Call_Close (w1\<lparr>stdout := stdout w1 @ out\<rparr>)))))"

subsection \<open>HasImage\<close>

text \<open>
  The two nested \<^verbatim>\<open>range\<close> loops with \<^verbatim>\<open>break OuterLoop\<close>: the result is the value
  of \<^verbatim>\<open>hasImage\<close> when the loops are left. The parameter \<^verbatim>\<open>image\<close> is \<open>img\<close>, and \<open>img1\<close> after
  the assignment \<^verbatim>\<open>image += ":latest"\<close>.
\<close>

fun tags_loop :: "string list \<Rightarrow> string \<Rightarrow> bool" where
  "tags_loop [] img = False"
| "tags_loop (tag # tags) img = (if tag = img then True else tags_loop tags img)"

fun images_loop :: "types_ImageSummary list \<Rightarrow> string \<Rightarrow> bool" where
  "images_loop [] img = False"
| "images_loop (imageInfo # images) img =
     (if tags_loop (RepoTags imageInfo) img then True else images_loop images img)"

definition HasImage :: "env \<Rightarrow> addr \<Rightarrow> string \<Rightarrow> world \<Rightarrow> bool \<times> world" where
  "HasImage e dm img w =
     (if img = [] then (False, w)
      else
        (let img1 = (if \<not> strings_Contains img '':'' then img @ '':latest'' else img);
             w1 = emit (Call_ImageList (dm_client (store w dm)) (dm_context (store w dm))) w
         in case client_ImageList e of
              Inl err \<Rightarrow> (False, log_Error ''Unable to list images'' err w1)
            | Inr images \<Rightarrow> (images_loop images img1, w1)))"

subsection \<open>ContainerCreate\<close>

definition zero_Mount :: mount_Mount where
  "zero_Mount = \<lparr>mount_Type = TypeNone, mount_Source = [], mount_Target = [], mount_ReadOnly = False\<rparr>"

text \<open>
  \<^verbatim>\<open>for i, m := range config.Mounts { mounts[i] = mount.Mount{...} }\<close>, started at
  index \<open>i\<close>; a write past the end of the slice panics.
\<close>

fun mounts_loop :: "nat \<Rightarrow> contman_Mount list \<Rightarrow> mount_Mount list \<Rightarrow> error + mount_Mount list" where
  "mounts_loop i [] mounts = Inr mounts"
| "mounts_loop i (m # ms) mounts =
     (if i < length mounts
      then mounts_loop (Suc i) ms
             (mounts[i := \<lparr>mount_Type = TypeBind, mount_Source = Source m,
                           mount_Target = Target m, mount_ReadOnly = ReadOnly m\<rparr>])
      else Inl (Panic ''index out of range''))"

text \<open>
  \<^verbatim>\<open>for key, value := range config.Env { env[i] = fmt.Sprintf("%s=%s", key, value); i++ }\<close>
\<close>

fun env_loop :: "nat \<Rightarrow> (string \<times> string) list \<Rightarrow> string list \<Rightarrow> error + string list" where
  "env_loop i [] env = Inr env"
| "env_loop i ((key, val) # kvs) env =
     (if i < length env
      then env_loop (Suc i) kvs (env[i := key @ ''='' @ val])
      else Inl (Panic ''index out of range''))"

definition ContainerCreate ::
    "env \<Rightarrow> addr \<Rightarrow> contman_Config \<Rightarrow> world \<Rightarrow> (error + DockerContainer) \<times> world" where
  "ContainerCreate e dm config w =
     (case os_Getwd e of
        Inl err \<Rightarrow> (Inl err, w)
      | Inr wd \<Rightarrow>
          (case mounts_loop 0 (Mounts config) (replicate (length (Mounts config)) zero_Mount) of
             Inl err \<Rightarrow> (Inl err, w)
           | Inr mounts \<Rightarrow>
               (case env_loop 0 (Env config) (replicate (length (Env config)) []) of
                  Inl err \<Rightarrow> (Inl err, w)
                | Inr env \<Rightarrow>
                    (let cc = \<lparr>cc_Image = Image config, cc_Entrypoint = [''sh''],
                               cc_Cmd = [''-c'', Cmd config], cc_WorkingDir = wd, cc_Env = env\<rparr>;
                         hc = \<lparr>hc_Mounts = mounts, hc_NetworkMode = ''host''\<rparr>;
                         w1 = emit (Call_ContainerCreate (dm_client (store w dm))
                                      (dm_context (store w dm)) cc hc None []) w
                     in case client_ContainerCreate e cc hc of
                          Inl err \<Rightarrow> (Inl err, log_Error ''Error creating container'' err w1)
                        | Inr resp_ID \<Rightarrow> (Inr \<lparr>dc_manager = dm, dc_id = resp_ID\<rparr>, w1)))))"

subsection \<open>GetSystemMounts\<close>

definition GetSystemMounts :: "addr \<Rightarrow> contman_Mount list" where
  "GetSystemMounts dm =
     [\<lparr>Source = ''/var/run/docker.sock'', Target = ''/var/run/docker.sock'', ReadOnly = False\<rparr>,
      \<lparr>Source = ''/root/.docker'', Target = ''/root/.docker'', ReadOnly = True\<rparr>]"

subsection \<open>An example environment\<close>

text \<open>
  A concrete environment and world on which the operations can be run: a parser that
  knows two references and rejects everything else, a credential store with one
  entry, a daemon that lists one image with two tags and accepts every pull and
  create, and a manager at every address.
\<close>

definition example_parse :: "string \<Rightarrow> error + reference_Named" where
  "example_parse s =
     (if s = ''alpine''
      then Inr \<lparr>named_domain = ''docker.io'', named_remainder = ''library/alpine''\<rparr>
      else if s = ''localhost:5000/alpine''
      then Inr \<lparr>named_domain = ''localhost:5000'', named_remainder = ''alpine''\<rparr>
      else if s = ''registry.example.com/tool:1.2''
      then Inr \<lparr>named_domain = ''registry.example.com'', named_remainder = ''tool:1.2''\<rparr>
      else Inl (Error ''invalid reference format''))"

definition example_env :: env where
  "example_env =
     \<lparr>reference_ParseNormalizedNamed = example_parse,
      docker_NewAuthConfigurationsFromDockerCfg =
        Inr [''registry.example.com'' \<mapsto>
               \<lparr>ac_Username = ''bob'', ac_Password = ''s3cret'', ac_Email = ''bob@example.com'',
                ac_ServerAddress = ''registry.example.com'', ac_IdentityToken = ''idt'',
                ac_RegistryToken = ''rgt''\<rparr>],
      client_ImageList =
        Inr [\<lparr>ID = ''sha256:aa'', RepoTags = [''localhost:5000/alpine:latest'', ''alpine:latest'']\<rparr>],
      client_ImagePull = (\<lambda>ref opts. Inr ''{\"status\":\"Pulling\"}''),
      client_ContainerCreate = (\<lambda>cc hc. Inr ''4f1c2a''),
      os_Getwd = Inr ''/work'',
      json_quote = (\<lambda>s. ''\"'' @ s @ ''\"'')\<rparr>"

definition example_world :: world where
  "example_world =
     \<lparr>store = (\<lambda>a. \<lparr>dm_client = 1, dm_context = 2, dm_mutex = 3, dm_cancel = 4\<rparr>),
      trace = [], stdout = [], logged = []\<rparr>"

definition example_config :: contman_Config where
  "example_config =
     \<lparr>Image = ''alpine'', Cmd = ''echo hi | grep h; ls $HOME > /dev/null && true'',
      Env = [(''X'', ''1'')],
      Mounts = [\<lparr>Source = ''/tmp/a'', Target = ''/a'', ReadOnly = True\<rparr>,
                \<lparr>Source = ''/tmp/b'', Target = ''/b'', ReadOnly = False\<rparr>]\<rparr>"

text \<open>The events of a trace that operate on a mutex.\<close>

fun is_mutex_event :: "event \<Rightarrow> bool" where
  "is_mutex_event (Mutex_Lock a) = True"
| "is_mutex_event (Mutex_Unlock a) = True"
| "is_mutex_event ev = False"

section \<open>Properties\<close>

subsection \<open>Loops and library functions\<close>

lemma strings_Contains_char: "strings_Contains s [c] = (c \<in> set s)"
  by (induction s) auto

lemma tags_loop_iff: "tags_loop tags img = (img \<in> set tags)"
  by (induction tags) auto

lemma images_loop_iff:
  "images_loop images img = (\<exists>imageInfo \<in> set images. img \<in> set (RepoTags imageInfo))"
  by (induction images) (auto simp: tags_loop_iff)

text \<open>
  The slice \<open>mounts\<close> is as long as \<^verbatim>\<open>config.Mounts\<close>, so no write of the loop is
  out of range: started at \<open>i\<close>, it overwrites the positions \<open>i, i + 1, \<dots>\<close> in order.
\<close>

lemma mounts_loop_eq:
  "i + length ms \<le> length mounts \<Longrightarrow>
   mounts_loop i ms mounts =
     Inr (take i mounts
          @ map (\<lambda>m. \<lparr>mount_Type = TypeBind, mount_Source = Source m,
                       mount_Target = Target m, mount_ReadOnly = ReadOnly m\<rparr>) ms
          @ drop (i + length ms) mounts)"
proof (induction ms arbitrary: i mounts)
  case Nil
  then show ?case by simp
next
  case (Cons m ms)
  then show ?case
    by (simp add: take_Suc_conv_app_nth)
qed

lemma env_loop_eq:
  "i + length kvs \<le> length env \<Longrightarrow>
   env_loop i kvs env =
     Inr (take i env @ map (\<lambda>(key, val). key @ ''='' @ val) kvs @ drop (i + length kvs) env)"
proof (induction kvs arbitrary: i env)
  case Nil
  then show ?case by simp
next
  case (Cons kv kvs)
  then show ?case
    by (cases kv) (simp add: take_Suc_conv_app_nth)
qed

lemma mounts_translated:
  "mounts_loop 0 ms (replicate (length ms) zero_Mount) =
     Inr (map (\<lambda>m. \<lparr>mount_Type = TypeBind, mount_Source = Source m,
                     mount_Target = Target m, mount_ReadOnly = ReadOnly m\<rparr>) ms)"
  by (simp add: mounts_loop_eq)

lemma env_flattened:
  "env_loop 0 kvs (replicate (length kvs) []) = Inr (map (\<lambda>(key, val). key @ ''='' @ val) kvs)"
  by (simp add: env_loop_eq)

lemma json_Marshal_empty: "json_Marshal quote (Some empty_AuthConfig) = Inr ''{}''"
  by (simp add: json_Marshal_def empty_AuthConfig_def json_field_def)

lemma json_Marshal_succeeds: "\<exists>encodedJSON. json_Marshal quote p = Inr encodedJSON"
  by (simp add: json_Marshal_def split: option.splits)

lemma base64_empty_object: "base64_URLEncoding_EncodeToString ''{}'' = ''e30=''"
  by (simp add: base64_URLEncoding_EncodeToString_def encode6_def encodeURL_def)

subsection \<open>HasImage\<close>

text \<open>
  What the code compares: for a non-empty argument and a listing that succeeds, the
  result says whether some listed image has a repo-tag equal to the argument when the
  argument contains a colon anywhere, and equal to the argument followed by
  \<^verbatim>\<open>:latest\<close> when it contains none.
\<close>

lemma HasImage_compares:
  assumes "img \<noteq> []" and "client_ImageList e = Inr images"
  shows "fst (HasImage e dm img w) =
           (\<exists>imageInfo \<in> set images.
              (if CHR '':'' \<in> set img then img else img @ '':latest'') \<in> set (RepoTags imageInfo))"
  using assms by (simp add: HasImage_def Let_def images_loop_iff strings_Contains_char)

text \<open>
  Claim C1: for every image reference without an explicit tag, \<^verbatim>\<open>HasImage\<close> compares
  against the reference with \<^verbatim>\<open>:latest\<close> appended, and for a reference with an
  explicit tag against the reference unchanged.

  The code takes any colon for a tag. The reference \<^verbatim>\<open>localhost:5000/alpine\<close> names a
  registry with a port and has no tag; the daemon lists the image under
  \<^verbatim>\<open>localhost:5000/alpine:latest\<close>, and \<^verbatim>\<open>HasImage\<close> compares the reference as it
  is and answers that the image is absent. On \<^verbatim>\<open>alpine\<close>, with the same listing, it
  appends the tag and finds the image.
\<close>

theorem HasImage_port_reference:
  "client_ImageList example_env =
     Inr [\<lparr>ID = ''sha256:aa'', RepoTags = [''localhost:5000/alpine:latest'', ''alpine:latest'']\<rparr>]
   \<and> fst (HasImage example_env 0 ''localhost:5000/alpine'' example_world) = False
   \<and> fst (HasImage example_env 0 ''alpine'' example_world) = True"
  by (simp add: HasImage_def example_env_def Let_def)

text \<open>
  Claim C2: \<^verbatim>\<open>HasImage\<close> never returns an error; when the image listing fails it
  returns false. The result type of \<^verbatim>\<open>HasImage\<close> is \<^typ>\<open>bool\<close>, with no error
  component, and a failed listing gives \<open>False\<close> for every argument.
\<close>

theorem HasImage_list_failure:
  "client_ImageList e = Inl err \<Longrightarrow> fst (HasImage e dm img w) = False"
  by (simp add: HasImage_def Let_def)

theorem HasImage_list_failure_witness:
  "client_ImageList (example_env\<lparr>client_ImageList := Inl (Error ''daemon unreachable'')\<rparr>)
     = Inl (Error ''daemon unreachable'')
   \<and> fst (HasImage (example_env\<lparr>client_ImageList := Inl (Error ''daemon unreachable'')\<rparr>)
             0 ''alpine'' example_world) = False"
proof -
  let ?e = "example_env\<lparr>client_ImageList := Inl (Error ''daemon unreachable'')\<rparr>"
  have h: "client_ImageList ?e = Inl (Error ''daemon unreachable'')" by simp
  from HasImage_list_failure [OF h, of 0 "''alpine''" example_world] h show ?thesis by simp
qed

text \<open>
  Claim C3: \<^verbatim>\<open>HasImage\<close> on the empty string returns false and issues no daemon call:
  the world, and with it the trace of calls, is returned as it was.
\<close>

theorem HasImage_empty: "HasImage e dm [] w = (False, w)"
  by (simp add: HasImage_def)

subsection \<open>getAuthConfig and PullImage\<close>

lemma getAuthConfig_absent:
  "(case docker_NewAuthConfigurationsFromDockerCfg e of
      Inl err \<Rightarrow> True | Inr Configs \<Rightarrow> Configs registry = None) \<Longrightarrow>
   getAuthConfig e registry = Some empty_AuthConfig"
  by (simp add: getAuthConfig_def split: sum.splits)

lemma getAuthConfig_shape:
  "\<exists>a. getAuthConfig e registry = Some a
      \<and> Auth a = [] \<and> Email a = [] \<and> ServerAddress a = []
      \<and> IdentityToken a = [] \<and> RegistryToken a = []"
  by (simp add: getAuthConfig_def empty_AuthConfig_def split: sum.splits option.splits)

text \<open>
  Claim C4: when the image reference does not parse as a normalized named reference,
  \<^verbatim>\<open>PullImage\<close> returns the parser's error and issues no daemon pull call: the trace
  is as it was.
\<close>

theorem PullImage_parse_failure:
  "reference_ParseNormalizedNamed e img = Inl err \<Longrightarrow>
   fst (PullImage e dm img w) = Some err \<and> trace (snd (PullImage e dm img w)) = trace w"
  by (simp add: PullImage_def log_Error_def)

theorem PullImage_parse_failure_witness:
  "reference_ParseNormalizedNamed example_env ''Bad Image!'' = Inl (Error ''invalid reference format'')
   \<and> fst (PullImage example_env 0 ''Bad Image!'' example_world) = Some (Error ''invalid reference format'')
   \<and> trace (snd (PullImage example_env 0 ''Bad Image!'' example_world)) = trace example_world"
proof -
  have h: "reference_ParseNormalizedNamed example_env ''Bad Image!'' = Inl (Error ''invalid reference format'')"
    by (simp add: example_env_def example_parse_def)
  from PullImage_parse_failure [OF h, of 0 example_world] h show ?thesis by simp
qed

text \<open>
  Claim C5: for a reference that parses and whose registry domain has no stored
  credentials, or when the credential configuration cannot be read, \<^verbatim>\<open>PullImage\<close>
  still issues the pull. The credentials marshal to the JSON text \<^verbatim>\<open>{}\<close>, the auth
  blob is its URL-safe base64 encoding \<^verbatim>\<open>e30=\<close>, and the pull call receives the
  reference string as the caller gave it. The trace grows by exactly that call, and by
  the closing of the response body when the daemon accepts the pull.
\<close>

theorem PullImage_anonymous:
  assumes "reference_ParseNormalizedNamed e img = Inr named"
    and "case docker_NewAuthConfigurationsFromDockerCfg e of
           Inl err \<Rightarrow> True | Inr Configs \<Rightarrow> Configs (reference_Domain named) = None"
  shows "json_Marshal (json_quote e) (getAuthConfig e (reference_Domain named)) = Inr ''{}''
    \<and> base64_URLEncoding_EncodeToString ''{}'' = ''e30=''
    \<and> trace (snd (PullImage e dm img w)) =
        trace w
        @ [Call_ImagePull (dm_client (store w dm)) (dm_context (store w dm)) img
             \<lparr>RegistryAuth = ''e30=''\<rparr>]
        @ (case client_ImagePull e img \<lparr>RegistryAuth = ''e30=''\<rparr> of
             Inl err \<Rightarrow> [] | Inr out \<Rightarrow> [Call_Close])"
proof -
  have a: "getAuthConfig e (reference_Domain named) = Some empty_AuthConfig"
    using assms(2) by (rule getAuthConfig_absent)
  show ?thesis
    using assms(1)
    by (simp add: a json_Marshal_empty base64_empty_object PullImage_def Let_def emit_def
        log_Error_def split: sum.splits)
qed

theorem PullImage_anonymous_witness:
  "reference_ParseNormalizedNamed example_env ''localhost:5000/alpine''
     = Inr \<lparr>named_domain = ''localhost:5000'', named_remainder = ''alpine''\<rparr>
   \<and> (case docker_NewAuthConfigurationsFromDockerCfg example_env of
         Inl err \<Rightarrow> True
       | Inr Configs \<Rightarrow>
           Configs (reference_Domain \<lparr>named_domain = ''localhost:5000'', named_remainder = ''alpine''\<rparr>)
             = None)
   \<and> trace (snd (PullImage example_env 0 ''localhost:5000/alpine'' example_world)) =
       [Call_ImagePull 1 2 ''localhost:5000/alpine'' \<lparr>RegistryAuth = ''e30=''\<rparr>, Call_Close]"
proof -
  let ?n = "\<lparr>named_domain = ''localhost:5000'', named_remainder = ''alpine''\<rparr>"
  have h1: "reference_ParseNormalizedNamed example_env ''localhost:5000/alpine'' = Inr ?n"
    by (simp add: example_env_def example_parse_def)
  have h2: "case docker_NewAuthConfigurationsFromDockerCfg example_env of
              Inl err \<Rightarrow> True | Inr Configs \<Rightarrow> Configs (reference_Domain ?n) = None"
    by (simp add: example_env_def reference_Domain_def)
  have h3: "client_ImagePull example_env ''localhost:5000/alpine'' \<lparr>RegistryAuth = ''e30=''\<rparr>
              = Inr ''{\"status\":\"Pulling\"}''"
    by (simp add: example_env_def)
  from PullImage_anonymous [OF h1 h2, of 0 example_world] h1 h2 h3 show ?thesis
    by (simp add: example_world_def)
qed

lemma PullImage_logged:
  "\<exists>new. logged (snd (PullImage e dm img w)) = logged w @ new
     \<and> ''Error encoding auth config'' \<notin> fst ` set new"
proof (cases "reference_ParseNormalizedNamed e img")
  case (Inl err)
  then show ?thesis by (simp add: PullImage_def log_Error_def)
next
  case (Inr named)
  obtain encodedJSON where m:
    "json_Marshal (json_quote e) (getAuthConfig e (reference_Domain named)) = Inr encodedJSON"
    using json_Marshal_succeeds by blast
  show ?thesis
    by (cases "client_ImagePull e img
                 \<lparr>RegistryAuth = base64_URLEncoding_EncodeToString encodedJSON\<rparr>")
       (simp_all add: PullImage_def Inr m Let_def log_Error_def emit_def)
qed

text \<open>
  Claim C9: for every registry domain, \<^verbatim>\<open>getAuthConfig\<close> returns a non-nil
  credential object in which every field other than the user name and the password is
  empty; marshalling it to JSON succeeds, and \<^verbatim>\<open>PullImage\<close> never takes the branch
  that logs and returns an encoding error: whatever it logs, it is not the message of
  that branch.
\<close>

theorem getAuthConfig_marshals:
  "(\<exists>a. getAuthConfig e registry = Some a
       \<and> Auth a = [] \<and> Email a = [] \<and> ServerAddress a = []
       \<and> IdentityToken a = [] \<and> RegistryToken a = [])
   \<and> (\<exists>encodedJSON. json_Marshal (json_quote e) (getAuthConfig e registry) = Inr encodedJSON)
   \<and> (\<exists>new. logged (snd (PullImage e dm img w)) = logged w @ new
         \<and> ''Error encoding auth config'' \<notin> fst ` set new)"
  using getAuthConfig_shape [of e registry] json_Marshal_succeeds [of "json_quote e"]
    PullImage_logged [of e dm img w]
  by blast

subsection \<open>ContainerCreate\<close>

text \<open>
  Once the working directory is resolved, \<^verbatim>\<open>ContainerCreate\<close> issues exactly one
  create call, with these parameters, no networking configuration and no name.
\<close>

lemma ContainerCreate_trace:
  assumes "os_Getwd e = Inr wd"
  shows "trace (snd (ContainerCreate e dm config w)) =
    trace w @
    [Call_ContainerCreate (dm_client (store w dm)) (dm_context (store w dm))
       \<lparr>cc_Image = Image config, cc_Entrypoint = [''sh''], cc_Cmd = [''-c'', Cmd config],
        cc_WorkingDir = wd, cc_Env = map (\<lambda>(key, val). key @ ''='' @ val) (Env config)\<rparr>
       \<lparr>hc_Mounts = map (\<lambda>m. \<lparr>mount_Type = TypeBind, mount_Source = Source m,
                     mount_Target = Target m, mount_ReadOnly = ReadOnly m\<rparr>) (Mounts config),
        hc_NetworkMode = ''host''\<rparr>
       None []]"
  using assms
  by (simp add: ContainerCreate_def mounts_translated env_flattened Let_def emit_def log_Error_def
      split: sum.splits)

text \<open>
  Claim C6: \<^verbatim>\<open>ContainerCreate\<close> translates the mount list of the configuration
  element by element and in order into as many bind mounts, each with the source, the
  target and the read-only flag of its mount specification. The create call is issued
  once the working directory of the process is resolved; the host configuration it
  carries holds the translated mounts.
\<close>

theorem ContainerCreate_mounts:
  assumes "os_Getwd e = Inr wd"
  shows "\<exists>cc hc.
    trace (snd (ContainerCreate e dm config w)) =
      trace w @ [Call_ContainerCreate (dm_client (store w dm)) (dm_context (store w dm)) cc hc None []]
    \<and> length (hc_Mounts hc) = length (Mounts config)
    \<and> hc_Mounts hc =
        map (\<lambda>m. \<lparr>mount_Type = TypeBind, mount_Source = Source m,
                    mount_Target = Target m, mount_ReadOnly = ReadOnly m\<rparr>) (Mounts config)"
  using ContainerCreate_trace [OF assms, of dm config w] by simp

theorem ContainerCreate_mounts_witness:
  "os_Getwd example_env = Inr ''/work''
   \<and> (\<exists>cc hc.
        trace (snd (ContainerCreate example_env 0 example_config example_world)) =
          [Call_ContainerCreate 1 2 cc hc None []]
        \<and> hc_Mounts hc =
            [\<lparr>mount_Type = TypeBind, mount_Source = ''/tmp/a'', mount_Target = ''/a'',
              mount_ReadOnly = True\<rparr>,
             \<lparr>mount_Type = TypeBind, mount_Source = ''/tmp/b'', mount_Target = ''/b'',
              mount_ReadOnly = False\<rparr>])"
proof -
  have h: "os_Getwd example_env = Inr ''/work''"
    by (simp add: example_env_def)
  from ContainerCreate_mounts [OF h, of 0 example_config example_world] h show ?thesis
    by (auto simp: example_world_def example_config_def)
qed

text \<open>
  Claim C7: whatever the command string of the configuration is, the create call has
  the entrypoint \<^verbatim>\<open>["sh"]\<close>, the command \<^verbatim>\<open>["-c", Cmd]\<close> with the string passed as it
  is, and the network mode \<^verbatim>\<open>host\<close>. The create call is issued once the working
  directory of the process is resolved.
\<close>

theorem ContainerCreate_shell_host:
  assumes "os_Getwd e = Inr wd"
  shows "\<exists>cc hc.
    trace (snd (ContainerCreate e dm config w)) =
      trace w @ [Call_ContainerCreate (dm_client (store w dm)) (dm_context (store w dm)) cc hc None []]
    \<and> cc_Entrypoint cc = [''sh'']
    \<and> cc_Cmd cc = [''-c'', Cmd config]
    \<and> hc_NetworkMode hc = ''host''"
  using ContainerCreate_trace [OF assms, of dm config w] by simp

theorem ContainerCreate_shell_host_witness:
  "os_Getwd example_env = Inr ''/work''
   \<and> (\<exists>cc hc.
        trace (snd (ContainerCreate example_env 0 example_config example_world)) =
          [Call_ContainerCreate 1 2 cc hc None []]
        \<and> cc_Entrypoint cc = [''sh'']
        \<and> cc_Cmd cc = [''-c'', ''echo hi | grep h; ls $HOME > /dev/null && true'']
        \<and> hc_NetworkMode hc = ''host'')"
proof -
  have h: "os_Getwd example_env = Inr ''/work''"
    by (simp add: example_env_def)
  from ContainerCreate_shell_host [OF h, of 0 example_config example_world] h show ?thesis
    by (auto simp: example_world_def example_config_def)
qed

subsection \<open>GetSystemMounts\<close>

text \<open>
  Claim C8: \<^verbatim>\<open>GetSystemMounts\<close> returns exactly two mounts, the daemon socket
  read-write and the credential directory read-only, whatever the receiver: it reads
  no world and no environment.
\<close>

theorem GetSystemMounts_fixed:
  "GetSystemMounts dm =
     [\<lparr>Source = ''/var/run/docker.sock'', Target = ''/var/run/docker.sock'', ReadOnly = False\<rparr>,
      \<lparr>Source = ''/root/.docker'', Target = ''/root/.docker'', ReadOnly = True\<rparr>]
   \<and> length (GetSystemMounts dm) = 2
   \<and> GetSystemMounts dm = GetSystemMounts dm'"
  by (simp add: GetSystemMounts_def)

subsection \<open>The manager is never written\<close>

lemma PullImage_frame:
  "store (snd (PullImage e dm img w)) = store w
   \<and> filter is_mutex_event (trace (snd (PullImage e dm img w))) = filter is_mutex_event (trace w)"
proof (cases "reference_ParseNormalizedNamed e img")
  case (Inl err)
  then show ?thesis by (simp add: PullImage_def log_Error_def)
next
  case (Inr named)
  obtain encodedJSON where m:
    "json_Marshal (json_quote e) (getAuthConfig e (reference_Domain named)) = Inr encodedJSON"
    using json_Marshal_succeeds by blast
  show ?thesis
    by (cases "client_ImagePull e img
                 \<lparr>RegistryAuth = base64_URLEncoding_EncodeToString encodedJSON\<rparr>")
       (simp_all add: PullImage_def Inr m Let_def log_Error_def emit_def)
qed

lemma HasImage_frame:
  "store (snd (HasImage e dm img w)) = store w
   \<and> filter is_mutex_event (trace (snd (HasImage e dm img w))) = filter is_mutex_event (trace w)"
  by (cases "client_ImageList e") (simp_all add: HasImage_def Let_def log_Error_def emit_def)

lemma ContainerCreate_frame:
  "store (snd (ContainerCreate e dm config w)) = store w
   \<and> filter is_mutex_event (trace (snd (ContainerCreate e dm config w)))
       = filter is_mutex_event (trace w)"
proof (cases "os_Getwd e")
  case (Inl err)
  then show ?thesis by (simp add: ContainerCreate_def)
next
  case (Inr wd)
  let ?cc = "\<lparr>cc_Image = Image config, cc_Entrypoint = [''sh''], cc_Cmd = [''-c'', Cmd config],
        cc_WorkingDir = wd, cc_Env = map (\<lambda>(key, val). key @ ''='' @ val) (Env config)\<rparr>"
  let ?hc = "\<lparr>hc_Mounts = map (\<lambda>m. \<lparr>mount_Type = TypeBind, mount_Source = Source m,
                     mount_Target = Target m, mount_ReadOnly = ReadOnly m\<rparr>) (Mounts config),
        hc_NetworkMode = ''host''\<rparr>"
  show ?thesis
    by (cases "client_ContainerCreate e ?cc ?hc")
       (simp_all add: ContainerCreate_def Inr mounts_translated env_flattened Let_def
          log_Error_def emit_def)
qed

text \<open>
  Claim C10: \<^verbatim>\<open>PullImage\<close>, \<^verbatim>\<open>HasImage\<close> and \<^verbatim>\<open>ContainerCreate\<close> leave the manager
  struct as it was, all four fields, at every address, and none of them locks or
  unlocks a mutex: the mutex events of the trace are those that were there before.
  \<^verbatim>\<open>GetSystemMounts\<close> is a value of the receiver alone; it takes no world and returns
  none.
\<close>

theorem operations_frame:
  "store (snd (PullImage e dm img w)) = store w
   \<and> store (snd (HasImage e dm img w)) = store w
   \<and> store (snd (ContainerCreate e dm config w)) = store w
   \<and> filter is_mutex_event (trace (snd (PullImage e dm img w))) = filter is_mutex_event (trace w)
   \<and> filter is_mutex_event (trace (snd (HasImage e dm img w))) = filter is_mutex_event (trace w)
   \<and> filter is_mutex_event (trace (snd (ContainerCreate e dm config w)))
       = filter is_mutex_event (trace w)"
  using PullImage_frame [of e dm img w] HasImage_frame [of e dm img w]
    ContainerCreate_frame [of e dm config w]
  by blast

end
